theory Spec2Isabelle
  imports Complex_Main "HOL-Library.Sublist"
begin

section \<open>The trade-log cleaner (\<^verbatim>\<open>clean_trade_log.py\<close>)\<close>

text \<open>
  The script loads a list of trade records, runs one filter loop over it, prints a
  report when the filtered list is not empty, and writes the cleaned structure back.
  File access and the backup copy are not modelled; the loop, the report computation with
  the exceptions it can raise, and the saved structure are.
\<close>

subsection \<open>Numbers\<close>

text \<open>
  The fields \<open>entry\<close>, \<open>exit\<close> and \<open>pnl\<close> are JSON numbers as \<open>json.load\<close> returns them: a
  Python int, or a float, which is a finite double or one of \<open>Infinity\<close>, \<open>-Infinity\<close> and
  \<open>NaN\<close> (the reader accepts these three words). A finite double is a rational number;
  \<open>PyFloat\<close> takes any rational, which is more than the doubles.
\<close>

datatype num = PyInt int | PyFloat rat | PyInf | PyNegInf | PyNaN

text \<open>
  The value of a number. Python compares ints and floats by their exact value, so the
  comparisons are functions of the values; a comparison with NaN is false.
\<close>

datatype xval = Fin rat | PInf | NInf | NaN

fun val :: "num \<Rightarrow> xval" where
  "val (PyInt n) = Fin (of_int n)"
| "val (PyFloat x) = Fin x"
| "val PyInf = PInf"
| "val PyNegInf = NInf"
| "val PyNaN = NaN"

definition xeq :: "xval \<Rightarrow> xval \<Rightarrow> bool" where
  "xeq a b = (a \<noteq> NaN \<and> a = b)"

definition xless :: "xval \<Rightarrow> xval \<Rightarrow> bool" where
  "xless a b =
     (case (a, b) of
        (Fin x, Fin y) \<Rightarrow> x < y
      | (Fin x, PInf) \<Rightarrow> True
      | (NInf, Fin y) \<Rightarrow> True
      | (NInf, PInf) \<Rightarrow> True
      | _ \<Rightarrow> False)"

text \<open>\<open>a == b\<close>, \<open>a > b\<close>, \<open>a <= b\<close> and \<open>abs(a)\<close>; \<open>a != b\<close> is the negation of \<open>a == b\<close>.\<close>

definition py_eq :: "num \<Rightarrow> num \<Rightarrow> bool" where
  "py_eq a b = xeq (val a) (val b)"

definition py_gt :: "num \<Rightarrow> num \<Rightarrow> bool" where
  "py_gt a b = xless (val b) (val a)"

definition py_le :: "num \<Rightarrow> num \<Rightarrow> bool" where
  "py_le a b = (xless (val a) (val b) \<or> xeq (val a) (val b))"

fun py_abs :: "num \<Rightarrow> num" where
  "py_abs (PyInt n) = PyInt \<bar>n\<bar>"
| "py_abs (PyFloat x) = PyFloat \<bar>x\<bar>"
| "py_abs PyInf = PyInf"
| "py_abs PyNegInf = PyInf"
| "py_abs PyNaN = PyNaN"

text \<open>
  \<open>round(x, 4)\<close> of a finite float: the nearest multiple of \<open>1/10000\<close>, a tie going to the
  even multiple (Python rounds the exact value of the double). Python returns the double
  nearest to that multiple; the loop rounds only values with \<open>abs(pnl) > 50\<close> false, and
  from \<open>-50\<close> to \<open>50\<close> doubles are much closer to each other than \<open>1/10000\<close>, so two
  rounded values are equal exactly when the multiples are. An int is returned as it is,
  and so are the infinities and NaN.
\<close>

definition round4 :: "rat \<Rightarrow> rat" where
  "round4 x =
     (let y = x * 10000; f = \<lfloor>y\<rfloor>; d = y - of_int f
      in of_int (if d < 1 / 2 then f
                 else if 1 / 2 < d then f + 1
                 else if even f then f else f + 1) / 10000)"

fun py_round4 :: "num \<Rightarrow> num" where
  "py_round4 (PyInt n) = PyInt n"
| "py_round4 (PyFloat x) = PyFloat (round4 x)"
| "py_round4 PyInf = PyInf"
| "py_round4 PyNegInf = PyNegInf"
| "py_round4 PyNaN = PyNaN"

subsection \<open>Records and keys\<close>

text \<open>
  A trade record is a dictionary. The keys \<open>pair\<close>, \<open>entry\<close>, \<open>exit\<close> and \<open>pnl\<close> are
  read with \<open>t['...']\<close> by the filter loop on every record, so they are fields;
  \<open>reason\<close> may be missing, so it is an option.
\<close>

record trade =
  pair :: string
  entry :: num
  exit :: num
  pnl :: num
  reason :: "string option"

datatype py_error = KeyError string | ZeroDivisionError | OverflowError

text \<open>
  The key \<open>(t['pair'], t['entry'], t['exit'], round(t['pnl'], 4))\<close>. Tuples in a set are
  found by hash and then compared component by component, identical objects counting as
  equal. Equal numbers have equal hashes whether int or float, so a key is given by the
  values of its numbers. \<open>json.load\<close> returns one and the same object for every \<open>NaN\<close> it
  reads, so a NaN \<open>entry\<close> or \<open>exit\<close> is found again; \<open>round\<close> returns a new object on every
  call, so a key whose rounded \<open>pnl\<close> is NaN is never found, although it is added.
\<close>

type_synonym key = "string \<times> xval \<times> xval \<times> xval"

definition key_of :: "trade \<Rightarrow> key" where
  "key_of t = (pair t, val (entry t), val (exit t), val (py_round4 (pnl t)))"

definition key_in :: "key \<Rightarrow> key set \<Rightarrow> bool" where
  "key_in k seen = (snd (snd (snd k)) \<noteq> NaN \<and> k \<in> seen)"

subsection \<open>The filter loop (lines 28 to 46)\<close>

text \<open>
  The loop state is \<open>valid_trades\<close> and \<open>seen\<close>. Each \<open>continue\<close> of the source is a
  branch that goes on with the state unchanged.
\<close>

fun filter_loop :: "trade list \<Rightarrow> trade list \<times> key set \<Rightarrow> trade list \<times> key set" where
  "filter_loop [] (valid, seen) = (valid, seen)"
| "filter_loop (t # ts) (valid, seen) =
     (if py_eq (entry t) (exit t) then filter_loop ts (valid, seen)
      else if py_gt (py_abs (pnl t)) (PyInt 50) then filter_loop ts (valid, seen)
      else let key = (pair t, val (entry t), val (exit t), val (py_round4 (pnl t)))
           in if key_in key seen then filter_loop ts (valid, seen)
              else filter_loop ts (valid @ [t], insert key seen))"

definition valid_trades :: "trade list \<Rightarrow> trade list" where
  "valid_trades ts = fst (filter_loop ts ([], {}))"

definition seen_keys :: "trade list \<Rightarrow> key set" where
  "seen_keys ts = snd (filter_loop ts ([], {}))"

subsection \<open>The report (lines 51 to 68)\<close>

text \<open>
  The numbers of the report are given by their values; the rounding error of the float
  sum and quotients is not modelled. \<open>sum\<close> adds from the int \<open>0\<close>; a quotient raises on
  a zero divisor.
\<close>

record report =
  wins :: nat
  total_pnl :: xval
  win_percent :: xval
  avg_pnl :: xval
  reasons :: "string \<rightharpoonup> nat"
  sample :: "(string \<times> num \<times> num \<times> num \<times> string) list"

definition xadd :: "xval \<Rightarrow> xval \<Rightarrow> xval" where
  "xadd a b =
     (case (a, b) of
        (Fin x, Fin y) \<Rightarrow> Fin (x + y)
      | (NaN, _) \<Rightarrow> NaN
      | (_, NaN) \<Rightarrow> NaN
      | (PInf, NInf) \<Rightarrow> NaN
      | (NInf, PInf) \<Rightarrow> NaN
      | (PInf, _) \<Rightarrow> PInf
      | (_, PInf) \<Rightarrow> PInf
      | (NInf, _) \<Rightarrow> NInf
      | (_, NInf) \<Rightarrow> NInf)"

definition py_sum :: "num list \<Rightarrow> xval" where
  "py_sum ns = foldl (\<lambda>a n. xadd a (val n)) (Fin 0) ns"

text \<open>A value divided by a count, and a value times a positive rational.\<close>

definition truediv :: "xval \<Rightarrow> nat \<Rightarrow> py_error + xval" where
  "truediv a n =
     (if n = 0 then Inl ZeroDivisionError
      else Inr (case a of Fin x \<Rightarrow> Fin (x / of_nat n) | v \<Rightarrow> v))"

definition xtimes :: "xval \<Rightarrow> rat \<Rightarrow> xval" where
  "xtimes a c = (case a of Fin x \<Rightarrow> Fin (x * c) | v \<Rightarrow> v)"

text \<open>\<open>r = t.get('reason', 'unknown'); reasons[r] = reasons.get(r, 0) + 1\<close>\<close>

fun count_reasons :: "trade list \<Rightarrow> (string \<rightharpoonup> nat) \<Rightarrow> (string \<rightharpoonup> nat)" where
  "count_reasons [] m = m"
| "count_reasons (t # ts) m =
     (let r = (case reason t of None \<Rightarrow> ''unknown'' | Some s \<Rightarrow> s)
      in count_reasons ts (m(r \<mapsto> (case m r of None \<Rightarrow> 0 | Some c \<Rightarrow> c) + 1)))"

text \<open>
  A sample line is an f-string; its fields are evaluated and formatted from left to
  right. The format \<open>.6f\<close> or \<open>.2f\<close> turns an int into a float first, which raises
  \<open>OverflowError\<close> when the int rounds to \<open>2 ^ 1024\<close> or beyond, that is from
  \<open>2 ^ 1024 - 2 ^ 970\<close> on; a float, infinite or NaN included, is always printed. The last field reads \<open>t['reason']\<close>, which raises
  \<open>KeyError\<close> on a missing key.
\<close>

definition float_overflow :: int where
  "float_overflow = 2 ^ 1024 - 2 ^ 970"

definition format_f :: "num \<Rightarrow> py_error + unit" where
  "format_f a =
     (case a of
        PyInt n \<Rightarrow> if \<bar>n\<bar> < float_overflow then Inr () else Inl OverflowError
      | _ \<Rightarrow> Inr ())"

definition sample_line :: "trade \<Rightarrow> py_error + (string \<times> num \<times> num \<times> num \<times> string)" where
  "sample_line t =
     (case format_f (entry t) of Inl e \<Rightarrow> Inl e | Inr _ \<Rightarrow>
      case format_f (exit t) of Inl e \<Rightarrow> Inl e | Inr _ \<Rightarrow>
      case format_f (pnl t) of Inl e \<Rightarrow> Inl e | Inr _ \<Rightarrow>
      case reason t of
        None \<Rightarrow> Inl (KeyError ''reason'')
      | Some r \<Rightarrow> Inr (pair t, entry t, exit t, pnl t, r))"

fun sample_lines ::
  "trade list \<Rightarrow> py_error + (string \<times> num \<times> num \<times> num \<times> string) list" where
  "sample_lines [] = Inr []"
| "sample_lines (t # ts) =
     (case sample_line t of
        Inl e \<Rightarrow> Inl e
      | Inr l \<Rightarrow> (case sample_lines ts of Inl e \<Rightarrow> Inl e | Inr ls \<Rightarrow> Inr (l # ls)))"

text \<open>
  The three lines printed before the breakdown format floats, or the int sum of int
  \<open>pnl\<close>s that the loop kept, each between \<open>-50\<close> and \<open>50\<close>: they raise nothing but the
  division by zero.
\<close>

definition stats :: "trade list \<Rightarrow> py_error + report" where
  "stats valid =
     (let w = length (filter (\<lambda>t. py_gt (pnl t) (PyInt 0)) valid);
          total = py_sum (map pnl valid)
      in case truediv (Fin (of_nat w)) (length valid) of
           Inl e \<Rightarrow> Inl e
         | Inr q \<Rightarrow>
            (case truediv total (length valid) of
               Inl e \<Rightarrow> Inl e
             | Inr a \<Rightarrow>
                (let rs = count_reasons valid Map.empty
                 in case sample_lines (take 10 valid) of
                      Inl e \<Rightarrow> Inl e
                    | Inr ls \<Rightarrow>
                       Inr \<lparr>wins = w, total_pnl = total, win_percent = xtimes q 100,
                            avg_pnl = a, reasons = rs, sample = ls\<rparr>)))"

subsection \<open>The saved structure (lines 71 to 79) and the whole run\<close>

record cleaned_data =
  version :: string
  total_trades :: nat
  cleaned_at :: string
  original_count :: nat
  removed_fake_trades :: nat
  removed_outliers :: nat
  trades :: "trade list"

definition make_cleaned_data :: "string \<Rightarrow> trade list \<Rightarrow> trade list \<Rightarrow> cleaned_data" where
  "make_cleaned_data now ts valid =
     \<lparr>version = ''2.0-cleaned'',
      total_trades = length valid,
      cleaned_at = now,
      original_count = length ts,
      removed_fake_trades = length (filter (\<lambda>t. py_eq (entry t) (exit t)) ts),
      removed_outliers =
        length (filter (\<lambda>t. \<not> py_eq (entry t) (exit t) \<and> py_gt (py_abs (pnl t)) (PyInt 50)) ts),
      trades = valid\<rparr>"

text \<open>
  The run: the loop, the report when \<open>valid_trades\<close> is not empty, then the structure
  that is saved. An exception in the report ends the run before anything is saved.
  \<open>now\<close> is the clock reading that becomes \<open>cleaned_at\<close>.
\<close>

definition main :: "string \<Rightarrow> trade list \<Rightarrow> py_error + (report option \<times> cleaned_data)" where
  "main now ts =
     (let valid = valid_trades ts
      in case (if valid \<noteq> [] then
                 (case stats valid of Inl e \<Rightarrow> Inl e | Inr r \<Rightarrow> Inr (Some r))
               else Inr None) of
           Inl e \<Rightarrow> Inl e
         | Inr rep \<Rightarrow> Inr (rep, make_cleaned_data now ts valid))"

subsection \<open>Notions used to state the properties\<close>

text \<open>A record survives the no-op filter and the outlier filter.\<close>

definition survives :: "trade \<Rightarrow> bool" where
  "survives t = (\<not> py_eq (entry t) (exit t) \<and> \<not> py_gt (py_abs (pnl t)) (PyInt 50))"

definition survivors :: "trade list \<Rightarrow> trade list" where
  "survivors ts = filter survives ts"

text \<open>
  Deduplication as the specification words it: scanning in order, a record whose key has
  been seen is dropped, the others are kept and their key is seen from then on. A key is
  seen when the set lookup of the program finds it.
\<close>

fun dedup :: "key set \<Rightarrow> trade list \<Rightarrow> trade list" where
  "dedup seen [] = []"
| "dedup seen (t # ts) =
     (if key_in (key_of t) seen then dedup seen ts
      else t # dedup (insert (key_of t) seen) ts)"

text \<open>
  The positions of a list whose key is found among the keys of the earlier positions, and
  the number of records the deduplication step drops: the survivors at such a position.
\<close>

definition repeats :: "trade list \<Rightarrow> nat \<Rightarrow> bool" where
  "repeats xs i = key_in (key_of (xs ! i)) (key_of ` set (take i xs))"

definition dedup_dropped :: "trade list \<Rightarrow> nat" where
  "dedup_dropped ts =
     length (filter (repeats (survivors ts)) [0..<length (survivors ts)])"

subsection \<open>Example records\<close>

text \<open>
  The records of the specification's scenarios, and variations of them: a take-profit
  trade, the same trade without a \<open>reason\<close>, the same trade with a NaN \<open>pnl\<close>, a no-op
  record, an outlier, a no-op record that is also beyond the threshold, a trade at the
  threshold, and a trade just beyond the threshold whose \<open>pnl\<close> rounds to the threshold.
\<close>

definition sol :: trade where
  "sol = \<lparr>pair = ''SOL'', entry = PyInt 20, exit = PyInt 22, pnl = PyInt 10,
          reason = Some ''take_profit''\<rparr>"

definition sol_no_reason :: trade where
  "sol_no_reason = \<lparr>pair = ''SOL'', entry = PyInt 20, exit = PyInt 22, pnl = PyInt 10,
                    reason = None\<rparr>"

definition sol_nan :: trade where
  "sol_nan = \<lparr>pair = ''SOL'', entry = PyInt 20, exit = PyInt 22, pnl = PyNaN,
              reason = Some ''take_profit''\<rparr>"

definition btc :: trade where
  "btc = \<lparr>pair = ''BTC'', entry = PyInt 10, exit = PyInt 10, pnl = PyInt 0, reason = None\<rparr>"

definition eth :: trade where
  "eth = \<lparr>pair = ''ETH'', entry = PyInt 1, exit = PyFloat (11 / 10), pnl = PyInt 60,
          reason = None\<rparr>"

definition noop_big :: trade where
  "noop_big = \<lparr>pair = ''BTC'', entry = PyInt 10, exit = PyInt 10, pnl = PyInt 60,
               reason = None\<rparr>"

definition edge :: trade where
  "edge = \<lparr>pair = ''ADA'', entry = PyInt 2, exit = PyInt 3, pnl = PyInt (- 50),
           reason = Some ''stop_loss''\<rparr>"

definition beyond :: trade where
  "beyond = \<lparr>pair = ''ADA'', entry = PyInt 2, exit = PyInt 3,
             pnl = PyFloat (- 5000001 / 100000), reason = Some ''stop_loss''\<rparr>"

section \<open>Properties\<close>

subsection \<open>The loop as filtering followed by deduplication\<close>

lemma filter_loop_dedup:
  "filter_loop ts (valid, seen) =
     (valid @ dedup seen (filter survives ts), seen \<union> key_of ` set (filter survives ts))"
  by (induction ts arbitrary: valid seen)
     (auto simp: Let_def key_of_def survives_def key_in_def)

lemma valid_trades_dedup: "valid_trades ts = dedup {} (survivors ts)"
  by (simp add: valid_trades_def survivors_def filter_loop_dedup)

lemma seen_keys_image: "seen_keys ts = key_of ` set (survivors ts)"
  by (simp add: seen_keys_def survivors_def filter_loop_dedup)

lemma upt_0_Suc_shift: "[0..<Suc n] = 0 # map Suc [0..<n]"
  by (simp add: upt_conv_Cons map_Suc_upt del: upt_Suc)

lemma key_in_member: "key_in k S \<Longrightarrow> k \<in> S"
  by (simp add: key_in_def)

lemma key_in_mono: "key_in k S \<Longrightarrow> S \<subseteq> T \<Longrightarrow> key_in k T"
  by (auto simp: key_in_def)

lemma map_nth_filter_Cons:
  "map (nth (x # xs)) (filter Q [0..<Suc (length xs)])
     = (if Q 0 then [x] else []) @ map (nth xs) (filter (Q \<circ> Suc) [0..<length xs])"
  by (simp add: upt_0_Suc_shift filter_map comp_def del: upt_Suc)

lemma dedup_positions:
  "dedup seen xs =
     map (nth xs)
       (filter (\<lambda>i. \<not> key_in (key_of (xs ! i)) (seen \<union> key_of ` set (take i xs)))
          [0..<length xs])"
proof (induction xs arbitrary: seen)
  case Nil
  show ?case by simp
next
  case (Cons x xs)
  let ?Q = "\<lambda>i. \<not> key_in (key_of ((x # xs) ! i)) (seen \<union> key_of ` set (take i (x # xs)))"
  let ?R = "\<lambda>s i. \<not> key_in (key_of (xs ! i)) (s \<union> key_of ` set (take i xs))"
  have Q0: "?Q 0 = (\<not> key_in (key_of x) seen)"
    by simp
  have QS: "?Q \<circ> Suc = ?R (insert (key_of x) seen)"
    by (rule ext) simp
  have "map (nth (x # xs)) (filter ?Q [0..<length (x # xs)])
      = (if ?Q 0 then [x] else []) @ map (nth xs) (filter (?Q \<circ> Suc) [0..<length xs])"
    unfolding length_Cons by (rule map_nth_filter_Cons)
  also have "\<dots> = (if \<not> key_in (key_of x) seen then [x] else [])
                   @ dedup (insert (key_of x) seen) xs"
    unfolding Q0 QS by (simp only: Cons.IH [of "insert (key_of x) seen"])
  also have "\<dots> = dedup seen (x # xs)"
  proof (cases "key_in (key_of x) seen")
    case True
    then have "insert (key_of x) seen = seen"
      by (auto dest: key_in_member)
    with True show ?thesis by simp
  next
    case False
    then show ?thesis by simp
  qed
  finally show ?case by (rule sym)
qed

lemma dedup_subset: "set (dedup seen xs) \<subseteq> set xs"
  by (induction xs arbitrary: seen) auto

lemma dedup_subseq: "subseq (dedup seen xs) xs"
  by (induction xs arbitrary: seen) auto

lemma dedup_again: "S \<subseteq> T \<Longrightarrow> dedup S (dedup T xs) = dedup T xs"
proof (induction xs arbitrary: S T)
  case Nil
  show ?case by simp
next
  case (Cons x xs)
  show ?case
  proof (cases "key_in (key_of x) T")
    case True
    with Cons show ?thesis by simp
  next
    case False
    with Cons.prems have "\<not> key_in (key_of x) S"
      by (auto dest: key_in_mono)
    moreover have "insert (key_of x) S \<subseteq> insert (key_of x) T"
      using Cons.prems by auto
    ultimately show ?thesis
      using False by (simp add: Cons.IH)
  qed
qed

lemma dedup_append:
  "dedup seen (xs @ ys) = dedup seen xs @ dedup (seen \<union> key_of ` set xs) ys"
  by (induction xs arbitrary: seen) (auto simp: insert_absorb dest: key_in_member)

subsection \<open>What the loop keeps\<close>

lemma survivors_dedup: "survivors (dedup seen (survivors ts)) = dedup seen (survivors ts)"
proof -
  have "set (dedup seen (survivors ts)) \<subseteq> set (survivors ts)"
    by (rule dedup_subset)
  then have "\<forall>t\<in>set (dedup seen (survivors ts)). survives t"
    by (auto simp: survivors_def)
  then show ?thesis
    by (simp add: survivors_def)
qed

lemma valid_trades_survive: "t \<in> set (valid_trades ts) \<Longrightarrow> survives t"
  using dedup_subset [of "{}" "survivors ts"] by (auto simp: valid_trades_dedup survivors_def)

text \<open>Every number but NaN is either \<open>> 50\<close> or \<open><= 50\<close>.\<close>

lemma not_gt_le:
  "a \<noteq> PyNaN \<Longrightarrow> \<not> py_gt (py_abs a) (PyInt 50) \<Longrightarrow> py_le (py_abs a) (PyInt 50)"
  by (cases a) (auto simp: py_gt_def py_le_def xless_def xeq_def)

text \<open>Where no \<open>pnl\<close> is NaN, the lookup is set membership and the kept keys are distinct.\<close>

lemma matchable_dedup_keys:
  "\<forall>t\<in>set xs. pnl t \<noteq> PyNaN \<Longrightarrow>
     key_of ` set (dedup seen xs) = key_of ` set xs - seen"
proof (induction xs arbitrary: seen)
  case Nil
  show ?case by simp
next
  case (Cons x xs)
  from Cons.prems have "val (py_round4 (pnl x)) \<noteq> NaN"
    by (cases "pnl x") auto
  then have "key_in (key_of x) seen = (key_of x \<in> seen)"
    by (simp add: key_in_def key_of_def)
  with Cons show ?case by auto
qed

lemma matchable_dedup_distinct:
  "\<forall>t\<in>set xs. pnl t \<noteq> PyNaN \<Longrightarrow> distinct (map key_of (dedup seen xs))"
proof (induction xs arbitrary: seen)
  case Nil
  show ?case by simp
next
  case (Cons x xs)
  then show ?case by (auto simp: matchable_dedup_keys)
qed

lemma valid_trades_distinct_keys:
  "\<forall>t\<in>set ts. pnl t \<noteq> PyNaN \<Longrightarrow> distinct (map key_of (valid_trades ts))"
  unfolding valid_trades_dedup by (rule matchable_dedup_distinct) (simp add: survivors_def)

lemma valid_trades_positions:
  "valid_trades ts =
     map (nth (survivors ts))
       (filter (\<lambda>i. \<not> repeats (survivors ts) i) [0..<length (survivors ts)])"
  by (simp add: valid_trades_dedup dedup_positions repeats_def)

subsection \<open>The run: what is saved, and when it raises\<close>

lemma main_Inr:
  "main now ts = Inr (rep, cd) \<Longrightarrow> cd = make_cleaned_data now ts (valid_trades ts)"
  by (auto simp: main_def Let_def split: if_splits sum.splits)

text \<open>
  Without the guard \<open>if valid_trades\<close> the report would divide by zero; with it, the run
  raises exactly when a sample line does, among the first ten kept records: on an int too
  large to print as a float, or on a missing \<open>reason\<close>.
\<close>

lemma stats_Nil: "stats [] = Inl ZeroDivisionError"
  by (simp add: stats_def truediv_def)

lemma stats_Inl:
  "valid \<noteq> [] \<Longrightarrow> stats valid = Inl e \<longleftrightarrow> sample_lines (take 10 valid) = Inl e"
  by (auto simp: stats_def truediv_def Let_def split: sum.splits)

lemma main_raises_iff:
  "main now ts = Inl e \<longleftrightarrow> sample_lines (take 10 (valid_trades ts)) = Inl e"
proof (cases "valid_trades ts = []")
  case True
  then show ?thesis by (simp add: main_def)
next
  case False
  then have "main now ts = Inl e \<longleftrightarrow> stats (valid_trades ts) = Inl e"
    by (simp add: main_def Let_def split: sum.splits)
  with stats_Inl [OF False] show ?thesis by simp
qed

lemma sample_lines_Inl:
  "sample_lines xs = Inl e \<Longrightarrow> \<exists>t\<in>set xs. sample_line t = Inl e"
  by (induction xs) (auto split: sum.splits)

lemma format_f_Inl:
  "format_f a = Inl e \<Longrightarrow> e = OverflowError \<and> (\<exists>n. a = PyInt n \<and> float_overflow \<le> \<bar>n\<bar>)"
  by (cases a) (auto simp: format_f_def split: if_splits)

lemma sample_line_Inl:
  "sample_line t = Inl e \<Longrightarrow>
     e = OverflowError
       \<and> (\<exists>n. PyInt n \<in> {entry t, exit t, pnl t} \<and> float_overflow \<le> \<bar>n\<bar>)
     \<or> e = KeyError ''reason'' \<and> reason t = None"
  unfolding sample_line_def
  by (auto split: sum.splits option.splits dest!: format_f_Inl)

subsection \<open>Counting\<close>

lemma length_split_repeats:
  "length (filter (\<lambda>i. \<not> P i) xs) + length (filter P xs) = length xs"
  by (induction xs) auto

lemma dedup_length:
  "length (dedup {} xs) + length (filter (repeats xs) [0..<length xs]) = length xs"
proof -
  have "dedup {} xs = map (nth xs) (filter (\<lambda>i. \<not> repeats xs i) [0..<length xs])"
    by (simp add: dedup_positions repeats_def)
  then have "length (dedup {} xs) = length (filter (\<lambda>i. \<not> repeats xs i) [0..<length xs])"
    by simp
  then show ?thesis
    using length_split_repeats [of "repeats xs" "[0..<length xs]"] by simp
qed

lemma length_three_way:
  "length (filter (\<lambda>t. py_eq (entry t) (exit t)) ts)
     + length (filter (\<lambda>t. \<not> py_eq (entry t) (exit t) \<and> py_gt (py_abs (pnl t)) (PyInt 50)) ts)
     + length (survivors ts) = length ts"
  by (induction ts) (auto simp: survivors_def survives_def)

subsection \<open>Rounding, and the run on the example records\<close>

lemma round4_int: "round4 (of_int n) = of_int n"
proof -
  have "rat_of_int n * 10000 = rat_of_int (n * 10000)" by simp
  then show ?thesis unfolding round4_def Let_def
    by (simp only: floor_of_int) simp
qed

lemmas num_ops = py_eq_def py_gt_def py_le_def xeq_def xless_def key_in_def

lemma valid_sol_sol: "valid_trades [sol, sol] = [sol]"
  by (simp add: valid_trades_def sol_def num_ops Let_def)

lemma dropped_sol_sol: "dedup_dropped [sol, sol] = 1"
  by (simp add: dedup_dropped_def survivors_def survives_def repeats_def sol_def key_of_def
      num_ops)

lemma stats_sol:
  "stats [sol] =
     Inr \<lparr>wins = 1, total_pnl = Fin 10, win_percent = Fin 100, avg_pnl = Fin 10,
          reasons = [''take_profit'' \<mapsto> 1],
          sample = [(''SOL'', PyInt 20, PyInt 22, PyInt 10, ''take_profit'')]\<rparr>"
  by (simp add: stats_def truediv_def xtimes_def py_sum_def xadd_def sample_line_def
      format_f_def float_overflow_def sol_def num_ops Let_def)

lemma main_sol_sol:
  "main now [sol, sol] =
     Inr (Some \<lparr>wins = 1, total_pnl = Fin 10, win_percent = Fin 100, avg_pnl = Fin 10,
                reasons = [''take_profit'' \<mapsto> 1],
                sample = [(''SOL'', PyInt 20, PyInt 22, PyInt 10, ''take_profit'')]\<rparr>,
          \<lparr>version = ''2.0-cleaned'', total_trades = 1, cleaned_at = now, original_count = 2,
           removed_fake_trades = 0, removed_outliers = 0, trades = [sol]\<rparr>)"
  by (simp add: main_def valid_sol_sol stats_sol Let_def make_cleaned_data_def)
     (simp add: sol_def num_ops)

lemma key_beyond: "key_of beyond = key_of edge"
  by code_simp

lemma valid_noop_outlier: "valid_trades [btc, eth] = []"
  by (simp add: valid_trades_def btc_def eth_def num_ops)

lemma valid_mixed: "valid_trades [noop_big, eth, sol] = [sol]"
  by (simp add: valid_trades_def noop_big_def eth_def sol_def num_ops Let_def)

lemma main_mixed:
  "main now [noop_big, eth, sol] =
     Inr (Some \<lparr>wins = 1, total_pnl = Fin 10, win_percent = Fin 100, avg_pnl = Fin 10,
                reasons = [''take_profit'' \<mapsto> 1],
                sample = [(''SOL'', PyInt 20, PyInt 22, PyInt 10, ''take_profit'')]\<rparr>,
          \<lparr>version = ''2.0-cleaned'', total_trades = 1, cleaned_at = now, original_count = 3,
           removed_fake_trades = 1, removed_outliers = 1, trades = [sol]\<rparr>)"
  by (simp add: main_def valid_mixed stats_sol Let_def make_cleaned_data_def)
     (simp add: noop_big_def eth_def sol_def num_ops)

lemma valid_nan: "valid_trades [sol_nan] = [sol_nan]"
  by (simp add: valid_trades_def sol_nan_def num_ops Let_def)

lemma valid_nan_nan: "valid_trades [sol_nan, sol_nan] = [sol_nan, sol_nan]"
  by (simp add: valid_trades_def sol_nan_def num_ops Let_def)

lemma main_huge: "main now [sol\<lparr>entry := PyInt (10 ^ 400)\<rparr>] = Inl OverflowError"
  by (simp add: main_def valid_trades_def stats_def truediv_def sample_line_def
      format_f_def float_overflow_def sol_def num_ops Let_def)

subsection \<open>The claims\<close>

text \<open>
  C1. Among the records that survive the no-op filter and the outlier filter, a record
  should be kept exactly when its key \<open>(pair, entry, exit, round(pnl, 4))\<close> has not occurred
  on an earlier one, so that no key occurs twice in the output. The loop does this
  wherever no \<open>pnl\<close> is NaN (\<open>valid_trades_positions\<close>, \<open>valid_trades_distinct_keys\<close>).
  On two equal records whose \<open>pnl\<close> is NaN it keeps both: the outlier test lets NaN
  through, and the set lookup never finds a key whose rounded \<open>pnl\<close> is NaN. The output
  then holds the same pair, entry, exit and pnl twice.
\<close>

theorem nan_pnl_duplicates_both_kept:
  "survivors [sol_nan, sol_nan] = [sol_nan, sol_nan]
   \<and> valid_trades [sol_nan, sol_nan] = [sol_nan, sol_nan]
   \<and> \<not> distinct (map key_of (valid_trades [sol_nan, sol_nan]))"
  by (simp add: valid_nan_nan) (simp add: survivors_def survives_def sol_nan_def num_ops)

text \<open>
  C2. A record without \<open>reason\<close> that survives the filters should be counted under
  \<open>''unknown''\<close>, and the whole report, sample included, should be produced. On the single
  take-profit trade without a \<open>reason\<close>, the breakdown loop does count it under
  \<open>''unknown''\<close>, and the sample loop then raises \<open>KeyError\<close>: the run ends with the
  exception, without a report and before anything is saved.
\<close>

theorem missing_reason_sample_raises:
  "count_reasons [sol_no_reason] Map.empty ''unknown'' = Some 1
   \<and> main ''2026-01-01T00:00:00'' [sol_no_reason] = Inl (KeyError ''reason'')"
  by (simp add: main_def valid_trades_def sol_no_reason_def Let_def stats_def truediv_def
      sample_line_def format_f_def float_overflow_def num_ops)

text \<open>
  C3. Some input, one with a duplicate among the records that survive the first two
  filters, has \<open>removed_fake_trades + removed_outliers + total_trades\<close> different from
  \<open>original_count\<close>; and on every input that is saved, adding the number of records
  dropped by the deduplication step to that sum gives \<open>original_count\<close>.
\<close>

theorem accounting_gap:
  "(\<exists>ts rep cd. main now ts = Inr (rep, cd) \<and> 0 < dedup_dropped ts
      \<and> removed_fake_trades cd + removed_outliers cd + total_trades cd \<noteq> original_count cd)
   \<and> (main now ts = Inr (rep, cd) \<longrightarrow>
        removed_fake_trades cd + removed_outliers cd + total_trades cd + dedup_dropped ts
          = original_count cd)"
proof
  show "\<exists>ts rep cd. main now ts = Inr (rep, cd) \<and> 0 < dedup_dropped ts
      \<and> removed_fake_trades cd + removed_outliers cd + total_trades cd \<noteq> original_count cd"
    by (intro exI [of _ "[sol, sol]"] exI)
       (rule conjI, rule main_sol_sol, simp add: dropped_sol_sol)
next
  show "main now ts = Inr (rep, cd) \<longrightarrow>
        removed_fake_trades cd + removed_outliers cd + total_trades cd + dedup_dropped ts
          = original_count cd"
  proof
    assume "main now ts = Inr (rep, cd)"
    then have cd: "cd = make_cleaned_data now ts (valid_trades ts)"
      by (rule main_Inr)
    have "length (valid_trades ts) + dedup_dropped ts = length (survivors ts)"
      unfolding valid_trades_dedup dedup_dropped_def by (rule dedup_length)
    with length_three_way [of ts]
    show "removed_fake_trades cd + removed_outliers cd + total_trades cd + dedup_dropped ts
          = original_count cd"
      by (simp add: cd make_cleaned_data_def)
  qed
qed

theorem accounting_gap_witness:
  "main ''t'' [sol, sol] =
     Inr (Some \<lparr>wins = 1, total_pnl = Fin 10, win_percent = Fin 100, avg_pnl = Fin 10,
                reasons = [''take_profit'' \<mapsto> 1],
                sample = [(''SOL'', PyInt 20, PyInt 22, PyInt 10, ''take_profit'')]\<rparr>,
          \<lparr>version = ''2.0-cleaned'', total_trades = 1, cleaned_at = ''t'', original_count = 2,
           removed_fake_trades = 0, removed_outliers = 0, trades = [sol]\<rparr>)
   \<and> 0 + 0 + 1 + dedup_dropped [sol, sol] = (2::nat)"
proof -
  note m = main_sol_sol [of "''t''"]
  from accounting_gap [of "''t''" "[sol, sol]", THEN conjunct2, rule_format, OF m] m
  show ?thesis by simp
qed

text \<open>
  C4. The filter loop is idempotent: run on its own output, it returns that output
  unchanged.
\<close>

theorem valid_trades_idempotent: "valid_trades (valid_trades ts) = valid_trades ts"
proof -
  have "valid_trades (valid_trades ts) = dedup {} (survivors (dedup {} (survivors ts)))"
    by (simp only: valid_trades_dedup)
  also have "\<dots> = dedup {} (dedup {} (survivors ts))"
    by (simp only: survivors_dedup)
  also have "\<dots> = dedup {} (survivors ts)"
    by (rule dedup_again) simp
  finally show ?thesis
    by (simp only: valid_trades_dedup)
qed

text \<open>
  C5. In the saved structure, \<open>removed_fake_trades\<close> is the number of input records with
  \<open>entry == exit\<close>, and \<open>removed_outliers\<close> is the number of input records that pass the
  no-op filter and have \<open>abs(pnl) > 50\<close>; a record is counted by at most one of the two,
  so that their sum is the number of input records failing the first two filters.
\<close>

theorem removed_counts:
  "main now ts = Inr (rep, cd) \<Longrightarrow>
     removed_fake_trades cd = length (filter (\<lambda>t. py_eq (entry t) (exit t)) ts)
   \<and> removed_outliers cd
       = length (filter (\<lambda>t. py_gt (py_abs (pnl t)) (PyInt 50))
                  (filter (\<lambda>t. \<not> py_eq (entry t) (exit t)) ts))
   \<and> removed_fake_trades cd + removed_outliers cd
       = length (filter (\<lambda>t. \<not> survives t) ts)"
proof -
  assume "main now ts = Inr (rep, cd)"
  then have cd: "cd = make_cleaned_data now ts (valid_trades ts)"
    by (rule main_Inr)
  have "length (filter (\<lambda>t. py_eq (entry t) (exit t)) ts)
      + length (filter (\<lambda>t. \<not> py_eq (entry t) (exit t) \<and> py_gt (py_abs (pnl t)) (PyInt 50)) ts)
      = length (filter (\<lambda>t. \<not> survives t) ts)"
    by (induction ts) (auto simp: survives_def)
  then show ?thesis
    by (simp add: cd make_cleaned_data_def conj_commute)
qed

theorem removed_counts_witness:
  "main ''t'' [noop_big, eth, sol] =
     Inr (Some \<lparr>wins = 1, total_pnl = Fin 10, win_percent = Fin 100, avg_pnl = Fin 10,
                reasons = [''take_profit'' \<mapsto> 1],
                sample = [(''SOL'', PyInt 20, PyInt 22, PyInt 10, ''take_profit'')]\<rparr>,
          \<lparr>version = ''2.0-cleaned'', total_trades = 1, cleaned_at = ''t'', original_count = 3,
           removed_fake_trades = 1, removed_outliers = 1, trades = [sol]\<rparr>)
   \<and> length (filter (\<lambda>t. py_eq (entry t) (exit t)) [noop_big, eth, sol]) = 1
   \<and> length (filter (\<lambda>t. py_gt (py_abs (pnl t)) (PyInt 50))
               (filter (\<lambda>t. \<not> py_eq (entry t) (exit t)) [noop_big, eth, sol])) = 1
   \<and> length (filter (\<lambda>t. \<not> survives t) [noop_big, eth, sol]) = 2"
  using removed_counts [OF main_mixed [of "''t''"]] main_mixed [of "''t''"] by simp

text \<open>
  C6. Every record of the output should have \<open>entry != exit\<close> and \<open>abs(pnl) <= 50\<close>. Every
  record of the output does pass the two tests of the loop, and has \<open>abs(pnl) <= 50\<close>
  unless its \<open>pnl\<close> is NaN (\<open>valid_trades_survive\<close>, \<open>not_gt_le\<close>). A record whose \<open>pnl\<close> is
  NaN is kept, because \<open>abs(pnl) > 50\<close> is false for it, and \<open>abs(pnl) <= 50\<close> is false
  for it as well.
\<close>

theorem nan_pnl_kept_beyond_bounds:
  "valid_trades [sol_nan] = [sol_nan]
   \<and> \<not> py_gt (py_abs (pnl sol_nan)) (PyInt 50)
   \<and> \<not> py_le (py_abs (pnl sol_nan)) (PyInt 50)"
  by (simp add: valid_nan) (simp add: sol_nan_def num_ops)

text \<open>
  C7. The output is a subsequence of the input: the kept records, unchanged, in their
  input order.
\<close>

theorem valid_trades_subseq: "subseq (valid_trades ts) ts"
proof -
  have "subseq (valid_trades ts) (survivors ts)"
    unfolding valid_trades_dedup by (rule dedup_subseq)
  moreover have "subseq (survivors ts) ts"
    by (simp add: survivors_def)
  ultimately show ?thesis by (rule subseq_order.trans)
qed

text \<open>
  C8. When the filtered list is empty, the run computes no report (so it divides by
  nothing) and still produces the structure to save, with \<open>total_trades = 0\<close> and no
  trades.
\<close>

theorem empty_result_skips_report:
  "valid_trades ts = [] \<Longrightarrow>
     \<exists>cd. main now ts = Inr (None, cd) \<and> total_trades cd = 0 \<and> trades cd = []"
  by (simp add: main_def make_cleaned_data_def)

theorem empty_result_skips_report_witness:
  "valid_trades [btc, eth] = []
   \<and> (\<exists>cd. main ''t'' [btc, eth] = Inr (None, cd) \<and> total_trades cd = 0 \<and> trades cd = [])"
  using empty_result_skips_report [OF valid_noop_outlier, of "''t''"] valid_noop_outlier
  by simp

text \<open>
  C9. In the saved structure, \<open>total_trades\<close> is the length of \<open>trades\<close>.
\<close>

theorem total_trades_is_length:
  "main now ts = Inr (rep, cd) \<Longrightarrow> total_trades cd = length (trades cd)"
  by (drule main_Inr) (simp add: make_cleaned_data_def)

theorem total_trades_is_length_witness:
  "main ''t'' [sol, sol] =
     Inr (Some \<lparr>wins = 1, total_pnl = Fin 10, win_percent = Fin 100, avg_pnl = Fin 10,
                reasons = [''take_profit'' \<mapsto> 1],
                sample = [(''SOL'', PyInt 20, PyInt 22, PyInt 10, ''take_profit'')]\<rparr>,
          \<lparr>version = ''2.0-cleaned'', total_trades = 1, cleaned_at = ''t'', original_count = 2,
           removed_fake_trades = 0, removed_outliers = 0, trades = [sol]\<rparr>)
   \<and> (1::nat) = length [sol]"
  using total_trades_is_length [OF main_sol_sol [of "''t''"]] main_sol_sol [of "''t''"]
  by simp

text \<open>
  C10. The keys the loop has seen at its end are the keys of the records that survive the
  no-op filter and the outlier filter, and no others; and a surviving record whose key
  occurs before it only on records those two filters discard is kept, right after what
  the loop keeps of the records before it.
\<close>

theorem discarded_records_consume_no_key:
  "seen_keys ts = key_of ` {t \<in> set ts. survives t}
   \<and> (survives t \<and> (\<forall>u\<in>set pre. key_of u = key_of t \<longrightarrow> \<not> survives u)
        \<longrightarrow> (\<exists>rest. valid_trades (pre @ t # post) = valid_trades pre @ t # rest))"
proof -
  have a: "seen_keys ts = key_of ` {t \<in> set ts. survives t}"
    by (simp add: seen_keys_image survivors_def)
  have b: "\<exists>rest. valid_trades (pre @ t # post) = valid_trades pre @ t # rest"
    if s: "survives t" and pre: "\<forall>u\<in>set pre. key_of u = key_of t \<longrightarrow> \<not> survives u"
  proof -
    from pre have "key_of t \<notin> key_of ` set (filter survives pre)"
      by auto
    then have "\<not> key_in (key_of t) (key_of ` set (filter survives pre))"
      by (auto dest: key_in_member)
    with s have "dedup {} (filter survives (pre @ t # post))
        = dedup {} (filter survives pre)
          @ t # dedup (insert (key_of t) (key_of ` set (filter survives pre)))
                  (filter survives post)"
      by (simp add: dedup_append)
    then show ?thesis
      by (auto simp: valid_trades_dedup survivors_def)
  qed
  from a b show ?thesis by blast
qed

theorem discarded_records_consume_no_key_witness:
  "survives edge \<and> key_of beyond = key_of edge \<and> \<not> survives beyond
   \<and> (\<exists>rest. valid_trades ([beyond] @ edge # [edge]) = valid_trades [beyond] @ edge # rest)"
proof -
  have s: "survives edge"
    by (simp add: survives_def edge_def num_ops)
  have b: "\<not> survives beyond"
    by (simp add: survives_def beyond_def num_ops)
  from b have pre: "\<forall>u\<in>set [beyond]. key_of u = key_of edge \<longrightarrow> \<not> survives u"
    by simp
  from discarded_records_consume_no_key [of "[]" edge "[beyond]" "[edge]"] s pre b key_beyond
  show ?thesis by blast
qed

end
